theory Spec2Isabelle
  imports Main "HOL-Library.Word"
begin

unbundle bit_operations_syntax

section \<open>Data model\<close>

subsection \<open>Identifiers, roles and statuses (package models)\<close>

text \<open>
  \<^verbatim>\<open>uuid.UUID\<close> is sixteen bytes. \<^verbatim>\<open>UUID.String\<close> prints them as 32 lower-case
  hexadecimal digits in groups of 8-4-4-4-12.
\<close>

type_synonym uuid = "128 word"

definition hexdigit :: "nat \<Rightarrow> char" where
  "hexdigit n = ''0123456789abcdef'' ! (n mod 16)"

definition uuid_String :: "uuid \<Rightarrow> string" where
  "uuid_String u =
     (let hs = map (\<lambda>i. hexdigit (unat (drop_bit (4 * (31 - i)) u AND 15))) [0..<32]
      in take 8 hs @ ''-'' @ take 4 (drop 8 hs) @ ''-'' @ take 4 (drop 12 hs) @ ''-'' @
         take 4 (drop 16 hs) @ ''-'' @ drop 20 hs)"

text \<open>\<^verbatim>\<open>type UserRole string\<close> and \<^verbatim>\<open>type UserStatus string\<close> with their constants.\<close>

type_synonym UserRole = string
type_synonym UserStatus = string

definition RoleUser :: UserRole where "RoleUser = ''user''"
definition RoleAdmin :: UserRole where "RoleAdmin = ''admin''"
definition RoleModerator :: UserRole where "RoleModerator = ''moderator''"

definition StatusActive :: UserStatus where "StatusActive = ''active''"
definition StatusInactive :: UserStatus where "StatusInactive = ''inactive''"
definition StatusBanned :: UserStatus where "StatusBanned = ''banned''"
definition StatusPending :: UserStatus where "StatusPending = ''pending''"

subsection \<open>Tokens (package services, and the JWT library they are built with)\<close>

text \<open>
  The signing methods a token header can name. \<^verbatim>\<open>*jwt.SigningMethodHMAC\<close> is the type of
  the three HS methods; RS256 and ES256 stand for the asymmetric families.
\<close>

datatype SigningMethod = HS256 | HS384 | HS512 | RS256 | ES256 | NoneMethod

fun is_SigningMethodHMAC :: "SigningMethod \<Rightarrow> bool" where
  "is_SigningMethodHMAC HS256 = True"
| "is_SigningMethodHMAC HS384 = True"
| "is_SigningMethodHMAC HS512 = True"
| "is_SigningMethodHMAC _ = False"

text \<open>
  \<^verbatim>\<open>Claims\<close>: the custom fields and the registered claims that the code sets. The three
  dates are \<^verbatim>\<open>*jwt.NumericDate\<close>, so they can be absent in a parsed token; they are kept in
  Unix nanoseconds, like every instant of this theory.
\<close>

record Claims =
  UserID :: uuid
  Claims_Email :: string
  Claims_Role :: UserRole
  TokenType :: string
  ExpiresAt :: "int option"
  IssuedAt :: "int option"
  NotBefore :: "int option"
  Issuer :: string
  Subject :: string

text \<open>
  A Go string that can carry a token is a list of symbols: ordinary characters, and one
  atomic symbol \<open>Jws m k c\<close> for the compact serialisation of the claims \<open>c\<close> under the
  header algorithm \<open>m\<close> with a signature made with key \<open>k\<close>. Signing is a function of
  these three (an HMAC has no randomness), and the symbol is opaque to string operations
  other than equality, as in the symbolic treatment of cryptographic messages.
\<close>

datatype sym = Chr char | Jws SigningMethod string Claims

type_synonym gostring = "sym list"

definition str :: "string \<Rightarrow> gostring" where
  "str s = map Chr s"

record TokenPair =
  AccessToken :: gostring
  Pair_RefreshToken :: gostring
  Pair_ExpiresAt :: int
  Pair_TokenType :: string

subsection \<open>Users (package models)\<close>

text \<open>
  \<^verbatim>\<open>models.User\<close>. The embedded \<^verbatim>\<open>BaseModel\<close> contributes the primary key; the profile
  fields (avatar, bio, phone number) and the timestamps of the row are left out: no
  operation below reads or writes them.
\<close>

record User =
  ID :: uuid
  Email :: string
  Password :: string
  FirstName :: string
  LastName :: string
  Role :: UserRole
  Status :: UserStatus
  LastLoginAt :: "int option"
  RefreshToken :: gostring

definition IsActive :: "User \<Rightarrow> bool" where
  "IsActive u = (Status u = StatusActive)"

subsection \<open>Errors (package errors)\<close>

text \<open>
  The predeclared errors are package-level variables holding pointers to \<^verbatim>\<open>AppError\<close>
  objects. \<^verbatim>\<open>Code\<close>, \<^verbatim>\<open>Message\<close> and \<^verbatim>\<open>StatusCode\<close> are assigned by \<^verbatim>\<open>NewAppError\<close> only, so
  they are functions of the variable. \<^verbatim>\<open>WithDetails\<close> assigns \<^verbatim>\<open>Details\<close> on the shared
  object and returns the same pointer, so the details are part of the state.
\<close>

datatype AppErrorVar =
    ErrInternal | ErrNotFound | ErrBadRequest | ErrValidation | ErrConflict
  | ErrTooManyRequests
  | ErrUnauthorized | ErrInvalidToken | ErrTokenExpired | ErrInvalidCredentials
  | ErrForbidden
  | ErrUserNotFound | ErrUserExists | ErrEmailExists | ErrInvalidPassword
  | ErrDatabase | ErrRecordNotFound | ErrDuplicateEntry

definition CodeUnauthorized :: int where "CodeUnauthorized = 2000"
definition CodeForbidden :: int where "CodeForbidden = 2004"

fun Code :: "AppErrorVar \<Rightarrow> int" where
  "Code ErrInternal = 1000"
| "Code ErrNotFound = 1002"
| "Code ErrBadRequest = 1003"
| "Code ErrValidation = 1001"
| "Code ErrConflict = 1004"
| "Code ErrTooManyRequests = 1005"
| "Code ErrUnauthorized = 2000"
| "Code ErrInvalidToken = 2001"
| "Code ErrTokenExpired = 2002"
| "Code ErrInvalidCredentials = 2003"
| "Code ErrForbidden = 2004"
| "Code ErrUserNotFound = 3000"
| "Code ErrUserExists = 3001"
| "Code ErrEmailExists = 3003"
| "Code ErrInvalidPassword = 3002"
| "Code ErrDatabase = 4000"
| "Code ErrRecordNotFound = 4001"
| "Code ErrDuplicateEntry = 4002"

fun Message :: "AppErrorVar \<Rightarrow> string" where
  "Message ErrInternal = ''Internal server error''"
| "Message ErrNotFound = ''Resource not found''"
| "Message ErrBadRequest = ''Bad request''"
| "Message ErrValidation = ''Validation error''"
| "Message ErrConflict = ''Resource conflict''"
| "Message ErrTooManyRequests = ''Too many requests''"
| "Message ErrUnauthorized = ''Unauthorized''"
| "Message ErrInvalidToken = ''Invalid token''"
| "Message ErrTokenExpired = ''Token expired''"
| "Message ErrInvalidCredentials = ''Invalid credentials''"
| "Message ErrForbidden = ''Forbidden''"
| "Message ErrUserNotFound = ''User not found''"
| "Message ErrUserExists = ''User already exists''"
| "Message ErrEmailExists = ''Email already exists''"
| "Message ErrInvalidPassword = ''Invalid password''"
| "Message ErrDatabase = ''Database error''"
| "Message ErrRecordNotFound = ''Record not found''"
| "Message ErrDuplicateEntry = ''Duplicate entry''"

text \<open>The \<^verbatim>\<open>net/http\<close> status of each predeclared error.\<close>

fun StatusCode :: "AppErrorVar \<Rightarrow> int" where
  "StatusCode ErrInternal = 500"
| "StatusCode ErrNotFound = 404"
| "StatusCode ErrBadRequest = 400"
| "StatusCode ErrValidation = 400"
| "StatusCode ErrConflict = 409"
| "StatusCode ErrTooManyRequests = 429"
| "StatusCode ErrUnauthorized = 401"
| "StatusCode ErrInvalidToken = 401"
| "StatusCode ErrTokenExpired = 401"
| "StatusCode ErrInvalidCredentials = 401"
| "StatusCode ErrForbidden = 403"
| "StatusCode ErrUserNotFound = 404"
| "StatusCode ErrUserExists = 409"
| "StatusCode ErrEmailExists = 409"
| "StatusCode ErrInvalidPassword = 400"
| "StatusCode ErrDatabase = 500"
| "StatusCode ErrRecordNotFound = 404"
| "StatusCode ErrDuplicateEntry = 409"

text \<open>
  A Go \<^verbatim>\<open>error\<close> value of this program: one of the predeclared \<^verbatim>\<open>*AppError\<close> pointers, an
  error of the storage driver, of the JWT library or of bcrypt.
\<close>

datatype jwt_error =
    TokenMalformed | TokenUnverifiable | TokenSignatureInvalid | TokenExpired
  | TokenNotValidYet

datatype error = App AppErrorVar | GormErr | JwtErr jwt_error | BcryptErr

definition IsAppError :: "error \<Rightarrow> bool" where
  "IsAppError err = (case err of App _ \<Rightarrow> True | _ \<Rightarrow> False)"

subsection \<open>Configuration, state and environment\<close>

text \<open>The fields of \<^verbatim>\<open>config.Config\<close> that the authentication code reads.\<close>

record Config =
  App_Name :: string
  JWT_Secret :: string
  JWT_ExpiryHours :: int
  JWT_RefreshExpiryHours :: int

text \<open>
  The state that outlives a call: the rows of the \<^verbatim>\<open>users\<close> table and the \<^verbatim>\<open>Details\<close>
  field of each predeclared error object.
\<close>

record world =
  users :: "User list"
  details :: "AppErrorVar \<Rightarrow> string"

text \<open>The calls of \<^verbatim>\<open>UserRepository\<close> that the services below make.\<close>

datatype repo_call =
    CallExistsByEmail | CallCreate | CallFindByEmail | CallFindByID
  | CallUpdateRefreshToken | CallUpdateLastLogin | CallUpdatePassword
  | CallUpdateStatus

text \<open>
  What one call reads from outside the program: the clock (\<^verbatim>\<open>time.Now\<close>, in Unix
  nanoseconds, read once per call), the random identifier \<^verbatim>\<open>uuid.New\<close> would return, the
  random salt bcrypt would draw, which storage calls fail in the driver, and the two
  bcrypt functions (\<^verbatim>\<open>GenerateFromPassword\<close> from a salt and a password to a hash or an
  error; \<^verbatim>\<open>CompareHashAndPassword\<close> from a hash and a password to whether the error is
  nil). What the services write to the log is not part of the model.
\<close>

record env =
  Now :: int
  NewUUID :: uuid
  Salt :: string
  fails :: "repo_call \<Rightarrow> bool"
  GenerateFromPassword :: "string \<Rightarrow> string \<Rightarrow> string option"
  CompareHashAndPassword :: "string \<Rightarrow> string \<Rightarrow> bool"

section \<open>The JWT library as the services use it\<close>

text \<open>
  \<^verbatim>\<open>time.Duration\<close> is a 64-bit signed count of nanoseconds; the product
  \<^verbatim>\<open>time.Duration(h) * time.Hour\<close> wraps around.
\<close>

definition int64 :: "int \<Rightarrow> int" where
  "int64 x = (x + 2 ^ 63) mod 2 ^ 64 - 2 ^ 63"

definition Second :: int where "Second = 1000000000"
definition Hour :: int where "Hour = 3600 * Second"

definition hours :: "int \<Rightarrow> int" where
  "hours h = int64 (int64 h * Hour)"

text \<open>
  \<^verbatim>\<open>jwt.NewNumericDate\<close> truncates the instant to the library's \<^verbatim>\<open>TimePrecision\<close>, one
  second.
\<close>

definition NewNumericDate :: "int \<Rightarrow> int option" where
  "NewNumericDate t = Some (t - t mod Second)"

text \<open>
  \<^verbatim>\<open>NewWithClaims(method, claims).SignedString(key)\<close>. With an HMAC method and a byte
  slice as the key it returns no error.
\<close>

definition SignedString :: "SigningMethod \<Rightarrow> string \<Rightarrow> Claims \<Rightarrow> error + gostring" where
  "SignedString m key c = Inr [Jws m key c]"

text \<open>
  \<^verbatim>\<open>Parser.ParseUnverified\<close>: a string of three well-formed segments gives the method of
  its header, its claims and its signature (here: the key that made it); any other string
  is malformed.
\<close>

fun ParseUnverified :: "gostring \<Rightarrow> (SigningMethod \<times> string \<times> Claims) option" where
  "ParseUnverified [Jws m k c] = Some (m, k, c)"
| "ParseUnverified _ = None"

definition Verify :: "string \<Rightarrow> string \<Rightarrow> bool" where
  "Verify signed_with key = (signed_with = key)"

text \<open>
  The default \<^verbatim>\<open>Validator\<close>: an expiry, when present, must be after the current time, a
  not-before, when present, must not be; issued-at is not checked.
\<close>

definition Validate :: "int \<Rightarrow> Claims \<Rightarrow> jwt_error option" where
  "Validate now c =
     (case ExpiresAt c of
        Some exp \<Rightarrow> if now < exp then
                      (case NotBefore c of
                         Some nbf \<Rightarrow> if now < nbf then Some TokenNotValidYet else None
                       | None \<Rightarrow> None)
                    else Some TokenExpired
      | None \<Rightarrow>
          (case NotBefore c of
             Some nbf \<Rightarrow> if now < nbf then Some TokenNotValidYet else None
           | None \<Rightarrow> None))"

text \<open>
  \<^verbatim>\<open>jwt.ParseWithClaims\<close>: parse the segments, ask the key function for the key, verify
  the signature, validate the claims.
\<close>

definition ParseWithClaims ::
  "int \<Rightarrow> gostring \<Rightarrow> (SigningMethod \<Rightarrow> error + string) \<Rightarrow> error + Claims" where
  "ParseWithClaims now tokenString keyFunc =
     (case ParseUnverified tokenString of
        None \<Rightarrow> Inl (JwtErr TokenMalformed)
      | Some (m, signed_with, c) \<Rightarrow>
          (case keyFunc m of
             Inl err \<Rightarrow> Inl (JwtErr TokenUnverifiable)
           | Inr key \<Rightarrow>
               if Verify signed_with key then
                 (case Validate now c of
                    Some verr \<Rightarrow> Inl (JwtErr verr)
                  | None \<Rightarrow> Inr c)
               else Inl (JwtErr TokenSignatureInvalid)))"

section \<open>The user repository (package repository)\<close>

text \<open>
  Every call fails with the driver's error when the environment says so, and then
  leaves the table as it is. \<^verbatim>\<open>First\<close> finds the row or gives \<^verbatim>\<open>gorm.ErrRecordNotFound\<close>,
  which the repository turns into \<^verbatim>\<open>ErrUserNotFound\<close>.
\<close>

definition FindByEmail :: "env \<Rightarrow> User list \<Rightarrow> string \<Rightarrow> error + User" where
  "FindByEmail e rows email =
     (if fails e CallFindByEmail then Inl GormErr
      else case find (\<lambda>u. Email u = email) rows of
             None \<Rightarrow> Inl (App ErrUserNotFound)
           | Some u \<Rightarrow> Inr u)"

definition FindByID :: "env \<Rightarrow> User list \<Rightarrow> uuid \<Rightarrow> error + User" where
  "FindByID e rows uid =
     (if fails e CallFindByID then Inl GormErr
      else case find (\<lambda>u. ID u = uid) rows of
             None \<Rightarrow> Inl (App ErrUserNotFound)
           | Some u \<Rightarrow> Inr u)"

text \<open>\<^verbatim>\<open>ExistsByEmail\<close> returns \<^verbatim>\<open>count > 0\<close> and the error; the count stays 0 on failure.\<close>

definition ExistsByEmail :: "env \<Rightarrow> User list \<Rightarrow> string \<Rightarrow> bool \<times> error option" where
  "ExistsByEmail e rows email =
     (if fails e CallExistsByEmail then (False, Some GormErr)
      else (0 < length (filter (\<lambda>u. Email u = email) rows), None))"

definition update_where :: "uuid \<Rightarrow> (User \<Rightarrow> User) \<Rightarrow> User list \<Rightarrow> User list" where
  "update_where uid f rows = map (\<lambda>u. if ID u = uid then f u else u) rows"

definition UpdateRefreshToken ::
  "env \<Rightarrow> User list \<Rightarrow> uuid \<Rightarrow> gostring \<Rightarrow> error option \<times> User list" where
  "UpdateRefreshToken e rows userID token =
     (if fails e CallUpdateRefreshToken then (Some GormErr, rows)
      else (None, update_where userID (\<lambda>u. u\<lparr>RefreshToken := token\<rparr>) rows))"

definition UpdateLastLogin :: "env \<Rightarrow> User list \<Rightarrow> uuid \<Rightarrow> error option \<times> User list" where
  "UpdateLastLogin e rows userID =
     (if fails e CallUpdateLastLogin then (Some GormErr, rows)
      else (None, update_where userID (\<lambda>u. u\<lparr>LastLoginAt := Some (Now e)\<rparr>) rows))"

definition UpdatePassword ::
  "env \<Rightarrow> User list \<Rightarrow> uuid \<Rightarrow> string \<Rightarrow> error option \<times> User list" where
  "UpdatePassword e rows userID password =
     (if fails e CallUpdatePassword then (Some GormErr, rows)
      else (None, update_where userID (\<lambda>u. u\<lparr>Password := password\<rparr>) rows))"

definition UpdateStatus ::
  "env \<Rightarrow> User list \<Rightarrow> uuid \<Rightarrow> UserStatus \<Rightarrow> error option \<times> User list" where
  "UpdateStatus e rows userID status =
     (if fails e CallUpdateStatus then (Some GormErr, rows)
      else (None, update_where userID (\<lambda>u. u\<lparr>Status := status\<rparr>) rows))"

text \<open>
  Modelled from the spec: \<^verbatim>\<open>BaseModel.BeforeCreate\<close> is not among the sources; the
  identity's id is "generated at creation", so a row without an id gets a fresh one.
\<close>

definition BaseModel_BeforeCreate :: "env \<Rightarrow> User \<Rightarrow> error + User" where
  "BaseModel_BeforeCreate e u = Inr (if ID u = 0 then u\<lparr>ID := NewUUID e\<rparr> else u)"

text \<open>\<^verbatim>\<open>User.BeforeCreate\<close>: the base hook, then the password is hashed unless it is empty
  or at least 60 bytes long.\<close>

definition BeforeCreate :: "env \<Rightarrow> User \<Rightarrow> error + User" where
  "BeforeCreate e u =
     (case BaseModel_BeforeCreate e u of
        Inl err \<Rightarrow> Inl err
      | Inr u1 \<Rightarrow>
          if 0 < length (Password u1) \<and> length (Password u1) < 60 then
            (case GenerateFromPassword e (Salt e) (Password u1) of
               None \<Rightarrow> Inl BcryptErr
             | Some hashedPassword \<Rightarrow> Inr (u1\<lparr>Password := hashedPassword\<rparr>))
          else Inr u1)"

text \<open>
  \<^verbatim>\<open>Create\<close> runs the hook and inserts the row; the table has a primary key on the id and
  a unique index on the email, so the insert of a duplicate fails. The caller's object
  is updated through the pointer, so the stored row is returned.
\<close>

definition Create :: "env \<Rightarrow> User list \<Rightarrow> User \<Rightarrow> (error + User) \<times> User list" where
  "Create e rows entity =
     (if fails e CallCreate then (Inl GormErr, rows)
      else case BeforeCreate e entity of
             Inl err \<Rightarrow> (Inl err, rows)
           | Inr u \<Rightarrow>
               if list_ex (\<lambda>r. ID r = ID u) rows then (Inl GormErr, rows)
               else if list_ex (\<lambda>r. Email r = Email u) rows then (Inl GormErr, rows)
               else (Inr u, rows @ [u]))"

definition CheckPassword :: "env \<Rightarrow> User \<Rightarrow> string \<Rightarrow> bool" where
  "CheckPassword e u password = CompareHashAndPassword e (Password u) password"

section \<open>The authentication service (package services)\<close>

record RegisterRequest =
  reg_Email :: string
  reg_Password :: string
  reg_FirstName :: string
  reg_LastName :: string

record LoginRequest =
  login_Email :: string
  login_Password :: string

text \<open>\<^verbatim>\<open>(*AppError).WithDetails\<close>: assigns the field of the shared object, returns the pointer.\<close>

definition WithDetails :: "AppErrorVar \<Rightarrow> string \<Rightarrow> world \<Rightarrow> error \<times> world" where
  "WithDetails v d w = (App v, w\<lparr>details := (details w)(v := d)\<rparr>)"

definition generateTokenPair :: "Config \<Rightarrow> env \<Rightarrow> User \<Rightarrow> error + TokenPair" where
  "generateTokenPair cfg e user =
     (let now = Now e;
          accessExpiry = now + hours (JWT_ExpiryHours cfg);
          refreshExpiry = now + hours (JWT_RefreshExpiryHours cfg);
          accessClaims = \<lparr>UserID = ID user, Claims_Email = Email user,
            Claims_Role = Role user, TokenType = ''access'',
            ExpiresAt = NewNumericDate accessExpiry, IssuedAt = NewNumericDate now,
            NotBefore = NewNumericDate now, Issuer = App_Name cfg,
            Subject = uuid_String (ID user)\<rparr>
      in case SignedString HS256 (JWT_Secret cfg) accessClaims of
           Inl err \<Rightarrow> Inl err
         | Inr accessTokenString \<Rightarrow>
             (let refreshClaims = \<lparr>UserID = ID user, Claims_Email = Email user,
                    Claims_Role = Role user, TokenType = ''refresh'',
                    ExpiresAt = NewNumericDate refreshExpiry, IssuedAt = NewNumericDate now,
                    NotBefore = NewNumericDate now, Issuer = App_Name cfg,
                    Subject = uuid_String (ID user)\<rparr>
              in case SignedString HS256 (JWT_Secret cfg) refreshClaims of
                   Inl err \<Rightarrow> Inl err
                 | Inr refreshTokenString \<Rightarrow>
                     Inr \<lparr>AccessToken = accessTokenString,
                          Pair_RefreshToken = refreshTokenString,
                          Pair_ExpiresAt = accessExpiry,
                          Pair_TokenType = ''Bearer''\<rparr>))"

text \<open>
  \<^verbatim>\<open>ValidateToken\<close>: the key function refuses every method that is not an HMAC and hands
  out the configured secret otherwise; every failure of the parse is \<^verbatim>\<open>ErrInvalidToken\<close>.
\<close>

definition keyFunc :: "Config \<Rightarrow> SigningMethod \<Rightarrow> error + string" where
  "keyFunc cfg m =
     (if \<not> is_SigningMethodHMAC m then Inl (App ErrInvalidToken) else Inr (JWT_Secret cfg))"

definition ValidateToken :: "Config \<Rightarrow> env \<Rightarrow> gostring \<Rightarrow> error + Claims" where
  "ValidateToken cfg e tokenString =
     (case ParseWithClaims (Now e) tokenString (keyFunc cfg) of
        Inl err \<Rightarrow> Inl (App ErrInvalidToken)
      | Inr claims \<Rightarrow> Inr claims)"

definition GetUserFromToken :: "env \<Rightarrow> world \<Rightarrow> Claims \<Rightarrow> error + User" where
  "GetUserFromToken e w claims = FindByID e (users w) (UserID claims)"

definition Register ::
  "Config \<Rightarrow> env \<Rightarrow> world \<Rightarrow> RegisterRequest \<Rightarrow> (error + User \<times> TokenPair) \<times> world" where
  "Register cfg e w req =
     (case ExistsByEmail e (users w) (reg_Email req) of
        (exists, Some err) \<Rightarrow> (Inl (App ErrInternal), w)
      | (exists, None) \<Rightarrow>
          if exists then (Inl (App ErrEmailExists), w)
          else
            (let user = \<lparr>ID = 0, Email = reg_Email req, Password = reg_Password req,
                   FirstName = reg_FirstName req, LastName = reg_LastName req,
                   Role = RoleUser, Status = StatusActive, LastLoginAt = None,
                   RefreshToken = []\<rparr>
             in case Create e (users w) user of
                  (Inl err, rows) \<Rightarrow> (Inl (App ErrInternal), w\<lparr>users := rows\<rparr>)
                | (Inr user1, rows1) \<Rightarrow>
                    (case generateTokenPair cfg e user1 of
                       Inl err \<Rightarrow> (Inl (App ErrInternal), w\<lparr>users := rows1\<rparr>)
                     | Inr tokens \<Rightarrow>
                         (case UpdateRefreshToken e rows1 (ID user1) (Pair_RefreshToken tokens) of
                            (Some err, rows2) \<Rightarrow> (Inl (App ErrInternal), w\<lparr>users := rows2\<rparr>)
                          | (None, rows2) \<Rightarrow> (Inr (user1, tokens), w\<lparr>users := rows2\<rparr>)))))"

definition Login ::
  "Config \<Rightarrow> env \<Rightarrow> world \<Rightarrow> LoginRequest \<Rightarrow> (error + User \<times> TokenPair) \<times> world" where
  "Login cfg e w req =
     (case FindByEmail e (users w) (login_Email req) of
        Inl err \<Rightarrow> (Inl (App ErrInvalidCredentials), w)
      | Inr user \<Rightarrow>
          if \<not> CheckPassword e user (login_Password req) then
            (Inl (App ErrInvalidCredentials), w)
          else if \<not> IsActive user then
            (case WithDetails ErrForbidden ''Account is not active'' w of
               (err, w1) \<Rightarrow> (Inl err, w1))
          else
            (case generateTokenPair cfg e user of
               Inl err \<Rightarrow> (Inl (App ErrInternal), w)
             | Inr tokens \<Rightarrow>
                 (case UpdateRefreshToken e (users w) (ID user) (Pair_RefreshToken tokens) of
                    (err1, rows1) \<Rightarrow>
                      (case UpdateLastLogin e rows1 (ID user) of
                         (err2, rows2) \<Rightarrow> (Inr (user, tokens), w\<lparr>users := rows2\<rparr>)))))"

definition Logout :: "env \<Rightarrow> world \<Rightarrow> uuid \<Rightarrow> error option \<times> world" where
  "Logout e w userID =
     (case UpdateRefreshToken e (users w) userID [] of
        (Some err, rows) \<Rightarrow> (Some (App ErrInternal), w\<lparr>users := rows\<rparr>)
      | (None, rows) \<Rightarrow> (None, w\<lparr>users := rows\<rparr>))"

definition RefreshTokens ::
  "Config \<Rightarrow> env \<Rightarrow> world \<Rightarrow> gostring \<Rightarrow> (error + TokenPair) \<times> world" where
  "RefreshTokens cfg e w refreshToken =
     (case ValidateToken cfg e refreshToken of
        Inl err \<Rightarrow> (Inl (App ErrInvalidToken), w)
      | Inr claims \<Rightarrow>
          if TokenType claims \<noteq> ''refresh'' then (Inl (App ErrInvalidToken), w)
          else
            (case FindByID e (users w) (UserID claims) of
               Inl err \<Rightarrow> (Inl (App ErrUserNotFound), w)
             | Inr user \<Rightarrow>
                 if RefreshToken user \<noteq> refreshToken then (Inl (App ErrInvalidToken), w)
                 else if \<not> IsActive user then
                   (case WithDetails ErrForbidden ''Account is not active'' w of
                      (err, w1) \<Rightarrow> (Inl err, w1))
                 else
                   (case generateTokenPair cfg e user of
                      Inl err \<Rightarrow> (Inl (App ErrInternal), w)
                    | Inr tokens \<Rightarrow>
                        (case UpdateRefreshToken e (users w) (ID user) (Pair_RefreshToken tokens) of
                           (Some err, rows) \<Rightarrow> (Inl (App ErrInternal), w\<lparr>users := rows\<rparr>)
                         | (None, rows) \<Rightarrow> (Inr tokens, w\<lparr>users := rows\<rparr>)))))"

definition ChangePassword ::
  "env \<Rightarrow> world \<Rightarrow> uuid \<Rightarrow> string \<Rightarrow> string \<Rightarrow> error option \<times> world" where
  "ChangePassword e w userID oldPassword newPassword =
     (case FindByID e (users w) userID of
        Inl err \<Rightarrow> (Some err, w)
      | Inr user \<Rightarrow>
          if \<not> CheckPassword e user oldPassword then (Some (App ErrInvalidPassword), w)
          else
            (case GenerateFromPassword e (Salt e) newPassword of
               None \<Rightarrow> (Some (App ErrInternal), w)
             | Some hashedPassword \<Rightarrow>
                 (case UpdatePassword e (users w) userID hashedPassword of
                    (Some err, rows) \<Rightarrow> (Some (App ErrInternal), w\<lparr>users := rows\<rparr>)
                  | (None, rows1) \<Rightarrow>
                      (case UpdateRefreshToken e rows1 userID [] of
                         (err2, rows2) \<Rightarrow> (None, w\<lparr>users := rows2\<rparr>)))))"

subsection \<open>The user service's change of status\<close>

definition UserService_UpdateStatus ::
  "env \<Rightarrow> world \<Rightarrow> uuid \<Rightarrow> UserStatus \<Rightarrow> error option \<times> world" where
  "UserService_UpdateStatus e w uid status =
     (case FindByID e (users w) uid of
        Inl err \<Rightarrow> (Some err, w)
      | Inr user \<Rightarrow>
          (case UpdateStatus e (users w) uid status of
             (Some err, rows) \<Rightarrow> (Some (App ErrInternal), w\<lparr>users := rows\<rparr>)
           | (None, rows) \<Rightarrow> (None, w\<lparr>users := rows\<rparr>)))"

section \<open>Responses and the request context (packages response and gin)\<close>

text \<open>
  The JSON body of an error response with its HTTP status, and the part of
  \<^verbatim>\<open>gin.Context\<close> that the middleware uses: the value \<^verbatim>\<open>GetHeader("Authorization")\<close>
  returns (empty when the header is absent), the keys \<^verbatim>\<open>"user"\<close> and \<^verbatim>\<open>"claims"\<close>, the
  response written so far, whether the chain was aborted and whether \<^verbatim>\<open>Next\<close> ran the
  handlers that follow.
\<close>

record Response =
  HTTPStatus :: int
  Success :: bool
  Error_Code :: int
  Error_Message :: string
  Error_Details :: string

record Context =
  Authorization :: gostring
  UserKey :: "User option"
  ClaimsKey :: "Claims option"
  Written :: "Response option"
  Aborted :: bool
  NextCalled :: bool

definition GetAppError :: "error \<Rightarrow> AppErrorVar" where
  "GetAppError err = (case err of App v \<Rightarrow> v | _ \<Rightarrow> ErrInternal)"

definition response_Error :: "Context \<Rightarrow> world \<Rightarrow> error \<Rightarrow> Context" where
  "response_Error c w err =
     (let appErr = GetAppError err
      in c\<lparr>Written := Some \<lparr>HTTPStatus = StatusCode appErr, Success = False,
              Error_Code = Code appErr, Error_Message = Message appErr,
              Error_Details = details w appErr\<rparr>\<rparr>)"

definition response_Unauthorized :: "Context \<Rightarrow> string \<Rightarrow> Context" where
  "response_Unauthorized c message =
     c\<lparr>Written := Some \<lparr>HTTPStatus = 401, Success = False, Error_Code = CodeUnauthorized,
          Error_Message = message, Error_Details = []\<rparr>\<rparr>"

definition response_Forbidden :: "Context \<Rightarrow> string \<Rightarrow> Context" where
  "response_Forbidden c message =
     c\<lparr>Written := Some \<lparr>HTTPStatus = 403, Success = False, Error_Code = CodeForbidden,
          Error_Message = message, Error_Details = []\<rparr>\<rparr>"

definition Abort :: "Context \<Rightarrow> Context" where
  "Abort c = c\<lparr>Aborted := True\<rparr>"

definition Next :: "Context \<Rightarrow> Context" where
  "Next c = c\<lparr>NextCalled := True\<rparr>"

definition Set_user :: "Context \<Rightarrow> User \<Rightarrow> Context" where
  "Set_user c user = c\<lparr>UserKey := Some user\<rparr>"

definition Set_claims :: "Context \<Rightarrow> Claims \<Rightarrow> Context" where
  "Set_claims c claims = c\<lparr>ClaimsKey := Some claims\<rparr>"

section \<open>The authentication middleware (package middleware)\<close>

definition BearerPrefix :: gostring where
  "BearerPrefix = str ''Bearer ''"

definition HasPrefix :: "gostring \<Rightarrow> gostring \<Rightarrow> bool" where
  "HasPrefix s p = (take (length p) s = p)"

definition TrimPrefix :: "gostring \<Rightarrow> gostring \<Rightarrow> gostring" where
  "TrimPrefix s p = (if HasPrefix s p then drop (length p) s else s)"

definition AuthMiddleware :: "Config \<Rightarrow> env \<Rightarrow> world \<Rightarrow> Context \<Rightarrow> Context \<times> world" where
  "AuthMiddleware cfg e w c =
     (let authHeader = Authorization c
      in if authHeader = [] then
           (Abort (response_Unauthorized c ''Authorization header is required''), w)
         else if \<not> HasPrefix authHeader BearerPrefix then
           (Abort (response_Unauthorized c ''Invalid authorization header format''), w)
         else
           (let token = TrimPrefix authHeader BearerPrefix
            in if token = [] then
                 (Abort (response_Unauthorized c ''Token is required''), w)
               else
                 (case ValidateToken cfg e token of
                    Inl err \<Rightarrow> (Abort (response_Error c w (App ErrInvalidToken)), w)
                  | Inr claims \<Rightarrow>
                      if TokenType claims \<noteq> ''access'' then
                        (case WithDetails ErrInvalidToken ''Invalid token type'' w of
                           (err, w1) \<Rightarrow> (Abort (response_Error c w1 err), w1))
                      else
                        (case GetUserFromToken e w claims of
                           Inl err \<Rightarrow> (Abort (response_Error c w (App ErrUserNotFound)), w)
                         | Inr user \<Rightarrow>
                             if \<not> IsActive user then
                               (Abort (response_Forbidden c ''Account is not active''), w)
                             else (Next (Set_claims (Set_user c user) claims), w)))))"

definition OptionalAuthMiddleware ::
  "Config \<Rightarrow> env \<Rightarrow> world \<Rightarrow> Context \<Rightarrow> Context \<times> world" where
  "OptionalAuthMiddleware cfg e w c =
     (let authHeader = Authorization c
      in if authHeader = [] then (Next c, w)
         else if \<not> HasPrefix authHeader BearerPrefix then (Next c, w)
         else
           (let token = TrimPrefix authHeader BearerPrefix
            in if token = [] then (Next c, w)
               else
                 (case ValidateToken cfg e token of
                    Inl err \<Rightarrow> (Next c, w)
                  | Inr claims \<Rightarrow>
                      if TokenType claims \<noteq> ''access'' then (Next c, w)
                      else
                        (case GetUserFromToken e w claims of
                           Inl err \<Rightarrow> (Next c, w)
                         | Inr user \<Rightarrow> (Next (Set_claims (Set_user c user) claims), w)))))"

section \<open>The extraction algorithm as the specification words it\<close>

text \<open>
  The seven checks of the specification, in its order. Each check is a predicate of the
  request by itself: the kind, the lookup and the status are read from the claims the
  presented token carries, whether or not its signature is good, so that a request can
  fail several checks at once and the order in which they are tried shows.
\<close>

datatype check =
    HeaderPresent | RecognizedBearerPrefix | NonEmptyToken | SignatureAndExpiryValid
  | KindIsAccess | IdentityLookupSucceeds | StatusIsActive

definition extraction_order :: "check list" where
  "extraction_order =
     [HeaderPresent, RecognizedBearerPrefix, NonEmptyToken, SignatureAndExpiryValid,
      KindIsAccess, IdentityLookupSucceeds, StatusIsActive]"

definition presented_token :: "Context \<Rightarrow> gostring" where
  "presented_token c = TrimPrefix (Authorization c) BearerPrefix"

definition presented_claims :: "Context \<Rightarrow> Claims option" where
  "presented_claims c =
     (case ParseUnverified (presented_token c) of
        None \<Rightarrow> None
      | Some (m, k, claims) \<Rightarrow> Some claims)"

definition presented_user :: "env \<Rightarrow> world \<Rightarrow> Context \<Rightarrow> User option" where
  "presented_user e w c =
     (case presented_claims c of
        None \<Rightarrow> None
      | Some claims \<Rightarrow>
          (case GetUserFromToken e w claims of Inl err \<Rightarrow> None | Inr user \<Rightarrow> Some user))"

fun passes :: "Config \<Rightarrow> env \<Rightarrow> world \<Rightarrow> Context \<Rightarrow> check \<Rightarrow> bool" where
  "passes cfg e w c HeaderPresent = (Authorization c \<noteq> [])"
| "passes cfg e w c RecognizedBearerPrefix = HasPrefix (Authorization c) BearerPrefix"
| "passes cfg e w c NonEmptyToken = (presented_token c \<noteq> [])"
| "passes cfg e w c SignatureAndExpiryValid =
     (case ValidateToken cfg e (presented_token c) of Inl err \<Rightarrow> False | Inr claims \<Rightarrow> True)"
| "passes cfg e w c KindIsAccess =
     (case presented_claims c of None \<Rightarrow> False | Some claims \<Rightarrow> TokenType claims = ''access'')"
| "passes cfg e w c IdentityLookupSucceeds =
     (case presented_user e w c of None \<Rightarrow> False | Some user \<Rightarrow> True)"
| "passes cfg e w c StatusIsActive =
     (case presented_user e w c of None \<Rightarrow> False | Some user \<Rightarrow> IsActive user)"

definition first_failure :: "Config \<Rightarrow> env \<Rightarrow> world \<Rightarrow> Context \<Rightarrow> check option" where
  "first_failure cfg e w c = find (\<lambda>k. \<not> passes cfg e w c k) extraction_order"

text \<open>What the required-mode guard answers when a check fails.\<close>

fun reject :: "check \<Rightarrow> Context \<Rightarrow> world \<Rightarrow> Context \<times> world" where
  "reject HeaderPresent c w =
     (Abort (response_Unauthorized c ''Authorization header is required''), w)"
| "reject RecognizedBearerPrefix c w =
     (Abort (response_Unauthorized c ''Invalid authorization header format''), w)"
| "reject NonEmptyToken c w = (Abort (response_Unauthorized c ''Token is required''), w)"
| "reject SignatureAndExpiryValid c w = (Abort (response_Error c w (App ErrInvalidToken)), w)"
| "reject KindIsAccess c w =
     (case WithDetails ErrInvalidToken ''Invalid token type'' w of
        (err, w1) \<Rightarrow> (Abort (response_Error c w1 err), w1))"
| "reject IdentityLookupSucceeds c w = (Abort (response_Error c w (App ErrUserNotFound)), w)"
| "reject StatusIsActive c w = (Abort (response_Forbidden c ''Account is not active''), w)"

text \<open>What it does when none fails: attach the identity and the claims, call the handler.\<close>

definition attach :: "env \<Rightarrow> world \<Rightarrow> Context \<Rightarrow> Context" where
  "attach e w c =
     (case presented_claims c of
        None \<Rightarrow> c
      | Some claims \<Rightarrow>
          (case presented_user e w c of
             None \<Rightarrow> c
           | Some user \<Rightarrow> Next (Set_claims (Set_user c user) claims)))"

section \<open>The responses of the required-mode guard, by failed check\<close>

fun rejection_status :: "check \<Rightarrow> int" where
  "rejection_status HeaderPresent = 401"
| "rejection_status RecognizedBearerPrefix = 401"
| "rejection_status NonEmptyToken = 401"
| "rejection_status SignatureAndExpiryValid = 401"
| "rejection_status KindIsAccess = 401"
| "rejection_status IdentityLookupSucceeds = 404"
| "rejection_status StatusIsActive = 403"

fun rejection_code :: "check \<Rightarrow> int" where
  "rejection_code HeaderPresent = 2000"
| "rejection_code RecognizedBearerPrefix = 2000"
| "rejection_code NonEmptyToken = 2000"
| "rejection_code SignatureAndExpiryValid = 2001"
| "rejection_code KindIsAccess = 2001"
| "rejection_code IdentityLookupSucceeds = 3000"
| "rejection_code StatusIsActive = 2004"

fun rejection_message :: "check \<Rightarrow> string" where
  "rejection_message HeaderPresent = ''Authorization header is required''"
| "rejection_message RecognizedBearerPrefix = ''Invalid authorization header format''"
| "rejection_message NonEmptyToken = ''Token is required''"
| "rejection_message SignatureAndExpiryValid = ''Invalid token''"
| "rejection_message KindIsAccess = ''Invalid token''"
| "rejection_message IdentityLookupSucceeds = ''User not found''"
| "rejection_message StatusIsActive = ''Account is not active''"

section \<open>Concrete data for the examples\<close>

definition cfg0 :: Config where
  "cfg0 = \<lparr>App_Name = ''go-enterprise-api'',
           JWT_Secret = ''0123456789abcdef0123456789abcdef'',
           JWT_ExpiryHours = 24, JWT_RefreshExpiryHours = 168\<rparr>"

text \<open>
  A stand-in for bcrypt in the examples: the hash is the salt, a separator and the
  password; comparison looks for the separator and the password at the end of the hash.
  No theorem depends on it.
\<close>

definition toy_hash :: "string \<Rightarrow> string \<Rightarrow> string option" where
  "toy_hash salt password = Some (salt @ ''$'' @ password)"

definition toy_compare :: "string \<Rightarrow> string \<Rightarrow> bool" where
  "toy_compare hashed password =
     (drop (length hashed - length password - 1) hashed = ''$'' @ password)"

text \<open>
  An environment at the instant \<open>t\<close> in which no storage call fails, and one in which
  the given call fails.
\<close>

definition env_at :: "int \<Rightarrow> env" where
  "env_at t = \<lparr>Now = t, NewUUID = 7, Salt = ''salt'', fails = (\<lambda>call. False),
              GenerateFromPassword = toy_hash, CompareHashAndPassword = toy_compare\<rparr>"

definition env_failing :: "int \<Rightarrow> repo_call \<Rightarrow> env" where
  "env_failing t failing = \<lparr>Now = t, NewUUID = 7, Salt = ''salt'',
              fails = (\<lambda>call. call = failing),
              GenerateFromPassword = toy_hash, CompareHashAndPassword = toy_compare\<rparr>"

definition world0 :: world where
  "world0 = \<lparr>users = [], details = (\<lambda>v. [])\<rparr>"

text \<open>
  The scenario of the specification: \<^verbatim>\<open>a@x.com\<close> registers with \<^verbatim>\<open>Passw0rd!\<close> at
  1000.2 s. The tokens issued during the second that starts at 1000 s carry these claims.
\<close>

definition reg0 :: RegisterRequest where
  "reg0 = \<lparr>reg_Email = ''a@x.com'', reg_Password = ''Passw0rd!'', reg_FirstName = ''A'',
           reg_LastName = ''X''\<rparr>"

definition claims0 :: "string \<Rightarrow> int \<Rightarrow> int \<Rightarrow> Claims" where
  "claims0 kind iat exp =
     \<lparr>UserID = 7, Claims_Email = ''a@x.com'', Claims_Role = ''user'', TokenType = kind,
      ExpiresAt = Some exp, IssuedAt = Some iat, NotBefore = Some iat,
      Issuer = ''go-enterprise-api'', Subject = uuid_String 7\<rparr>"

definition token0 :: "string \<Rightarrow> int \<Rightarrow> int \<Rightarrow> gostring" where
  "token0 kind iat exp =
     [Jws HS256 ''0123456789abcdef0123456789abcdef'' (claims0 kind iat exp)]"

definition access1 :: gostring where
  "access1 = token0 ''access'' 1000000000000 87400000000000"

definition refresh1 :: gostring where
  "refresh1 = token0 ''refresh'' 1000000000000 605800000000000"

definition pair_at :: "int \<Rightarrow> TokenPair" where
  "pair_at expires = \<lparr>AccessToken = access1, Pair_RefreshToken = refresh1,
                      Pair_ExpiresAt = expires, Pair_TokenType = ''Bearer''\<rparr>"

text \<open>The pair issued at 2000.5 s.\<close>

definition refresh2 :: gostring where
  "refresh2 = token0 ''refresh'' 2000000000000 606800000000000"

definition pair2 :: TokenPair where
  "pair2 = \<lparr>AccessToken = token0 ''access'' 2000000000000 88400000000000,
            Pair_RefreshToken = refresh2, Pair_ExpiresAt = 88400500000000,
            Pair_TokenType = ''Bearer''\<rparr>"

definition alice :: User where
  "alice = \<lparr>ID = 7, Email = ''a@x.com'', Password = ''salt$Passw0rd!'',
            FirstName = ''A'', LastName = ''X'', Role = ''user'', Status = ''active'',
            LastLoginAt = None, RefreshToken = []\<rparr>"

text \<open>The state after the registration, and the same with the account banned.\<close>

definition w_registered :: world where
  "w_registered = \<lparr>users = [alice\<lparr>RefreshToken := refresh1\<rparr>], details = (\<lambda>v. [])\<rparr>"

definition w_refreshed :: world where
  "w_refreshed = \<lparr>users = [alice\<lparr>RefreshToken := refresh2\<rparr>], details = (\<lambda>v. [])\<rparr>"

definition w_banned :: world where
  "w_banned = \<lparr>users = [alice\<lparr>Status := ''banned'', RefreshToken := refresh1\<rparr>],
               details = (\<lambda>v. [])\<rparr>"

definition login0 :: LoginRequest where
  "login0 = \<lparr>login_Email = ''a@x.com'', login_Password = ''Passw0rd!''\<rparr>"

definition login_wrong :: LoginRequest where
  "login_wrong = \<lparr>login_Email = ''a@x.com'', login_Password = ''letmein''\<rparr>"

definition login_nobody :: LoginRequest where
  "login_nobody = \<lparr>login_Email = ''b@x.com'', login_Password = ''letmein''\<rparr>"

text \<open>A request without the header, and one that presents a token as a bearer.\<close>

definition ctx0 :: Context where
  "ctx0 = \<lparr>Authorization = [], UserKey = None, ClaimsKey = None, Written = None,
           Aborted = False, NextCalled = False\<rparr>"

definition ctx_bearer :: "gostring \<Rightarrow> Context" where
  "ctx_bearer token = \<lparr>Authorization = BearerPrefix @ token, UserKey = None,
           ClaimsKey = None, Written = None, Aborted = False, NextCalled = False\<rparr>"

section \<open>Facts about the library model and the repository\<close>

lemmas data_defs = cfg0_def env_at_def env_failing_def world0_def reg0_def claims0_def
  token0_def access1_def refresh1_def pair_at_def refresh2_def pair2_def alice_def
  w_registered_def w_refreshed_def w_banned_def login0_def
  login_wrong_def login_nobody_def ctx0_def ctx_bearer_def toy_hash_def toy_compare_def
  RoleUser_def StatusActive_def StatusBanned_def

lemmas repo_defs = FindByID_def FindByEmail_def ExistsByEmail_def UpdateRefreshToken_def
  UpdateLastLogin_def UpdatePassword_def UpdateStatus_def Create_def
  BeforeCreate_def BaseModel_BeforeCreate_def update_where_def CheckPassword_def IsActive_def

lemmas jwt_defs = generateTokenPair_def SignedString_def ValidateToken_def ParseWithClaims_def
  keyFunc_def Verify_def Validate_def NewNumericDate_def hours_def int64_def Hour_def
  Second_def

lemmas guard_defs = AuthMiddleware_def OptionalAuthMiddleware_def GetUserFromToken_def
  BearerPrefix_def HasPrefix_def TrimPrefix_def str_def Abort_def Next_def Set_user_def
  Set_claims_def response_Error_def response_Unauthorized_def response_Forbidden_def
  GetAppError_def WithDetails_def CodeUnauthorized_def CodeForbidden_def

lemma int64_id: "- (2 ^ 63) \<le> x \<Longrightarrow> x < 2 ^ 63 \<Longrightarrow> int64 x = x"
  unfolding int64_def by simp

lemma hours_no_wrap:
  assumes "0 < h" "h \<le> 2562047"
  shows "hours h = h * Hour"
proof -
  have a: "int64 h = h" using assms by (intro int64_id) auto
  have "h * Hour \<le> 2562047 * Hour" using assms by (simp add: Hour_def Second_def)
  moreover have "0 \<le> h * Hour" using assms by (simp add: Hour_def Second_def)
  ultimately have "int64 (h * Hour) = h * Hour"
    by (intro int64_id) (auto simp: Hour_def Second_def)
  with a show ?thesis by (simp add: hours_def)
qed

lemma trunc_le: "t - t mod Second \<le> t"
  by (simp add: Second_def)

lemma trunc_gt: "t - Second < t - t mod Second"
  by (simp add: Second_def)

lemma generateTokenPair_never_fails: "generateTokenPair cfg e user \<noteq> Inl err"
  by (simp add: generateTokenPair_def SignedString_def Let_def)

lemma ValidateToken_Inr_iff:
  "ValidateToken cfg e t = Inr claims \<longleftrightarrow>
     (\<exists>m. t = [Jws m (JWT_Secret cfg) claims] \<and> is_SigningMethodHMAC m \<and>
          Validate (Now e) claims = None)"
proof (cases "ParseUnverified t")
  case None
  then have "\<And>m k c. t \<noteq> [Jws m k c]" by auto
  with None show ?thesis by (auto simp: ValidateToken_def ParseWithClaims_def)
next
  case (Some a)
  obtain m k c where a: "a = (m, k, c)" by (cases a)
  with Some have t: "t = [Jws m k c]"
    by (cases t rule: ParseUnverified.cases) auto
  show ?thesis unfolding t
    by (auto simp: ValidateToken_def ParseWithClaims_def keyFunc_def Verify_def
        split: option.splits)
qed

lemma ValidateToken_Inl: "ValidateToken cfg e t = Inl err \<Longrightarrow> err = App ErrInvalidToken"
  by (auto simp: ValidateToken_def split: sum.splits)

lemma ValidateToken_presented:
  "ValidateToken cfg e (presented_token c) = Inr claims \<Longrightarrow> presented_claims c = Some claims"
  by (auto simp: ValidateToken_Inr_iff presented_claims_def)

lemma find_update_where:
  assumes "\<And>u. ID (f u) = ID u"
  shows "find (\<lambda>u. ID u = uid) (update_where uid f rows) =
           map_option f (find (\<lambda>u. ID u = uid) rows)"
  using assms by (induction rows) (auto simp: update_where_def)

lemma find_append_new:
  "\<not> list_ex P rows \<Longrightarrow> P u \<Longrightarrow> find P (rows @ [u]) = Some u"
  by (induction rows) auto

lemma Create_Inr:
  assumes "Create e rows entity = (Inr u, rows1)"
  shows "find (\<lambda>r. ID r = ID u) rows1 = Some u \<and> Role u = Role entity \<and>
         Status u = Status entity \<and> RefreshToken u = RefreshToken entity \<and>
         Email u = Email entity"
  using assms
  by (auto simp: Create_def BeforeCreate_def BaseModel_BeforeCreate_def find_append_new
      split: if_splits sum.splits option.splits)

section \<open>The guard and the extraction algorithm\<close>

lemma AuthMiddleware_first_failure:
  "AuthMiddleware cfg e w c =
     (case first_failure cfg e w c of
        Some k \<Rightarrow> reject k c w
      | None \<Rightarrow> (attach e w c, w))"
proof (cases "ValidateToken cfg e (presented_token c)")
  case (Inl err)
  then show ?thesis
    by (simp add: AuthMiddleware_def first_failure_def extraction_order_def Let_def
        presented_token_def)
next
  case (Inr claims)
  note pc = ValidateToken_presented [OF Inr]
  show ?thesis
  proof (cases "GetUserFromToken e w claims")
    case (Inl err)
    with Inr pc show ?thesis
      by (simp add: AuthMiddleware_def first_failure_def extraction_order_def Let_def
          presented_token_def [symmetric] presented_user_def)
  next
    case (Inr user)
    with \<open>ValidateToken cfg e (presented_token c) = Inr claims\<close> pc show ?thesis
      by (simp add: AuthMiddleware_def first_failure_def extraction_order_def Let_def
          presented_token_def [symmetric] presented_user_def attach_def)
  qed
qed

lemma reject_effect:
  "reject k c w = (c', w') \<Longrightarrow>
     Aborted c' \<and> NextCalled c' = NextCalled c \<and> UserKey c' = UserKey c \<and>
     ClaimsKey c' = ClaimsKey c \<and> users w' = users w"
  by (cases k) (auto simp: Abort_def response_Unauthorized_def response_Error_def
      response_Forbidden_def WithDetails_def Let_def)

lemma first_failure_None:
  "first_failure cfg e w c = None \<longleftrightarrow>
     (\<exists>claims user. Authorization c \<noteq> [] \<and> HasPrefix (Authorization c) BearerPrefix \<and>
        presented_token c \<noteq> [] \<and> ValidateToken cfg e (presented_token c) = Inr claims \<and>
        TokenType claims = ''access'' \<and> GetUserFromToken e w claims = Inr user \<and> IsActive user)"
proof (cases "ValidateToken cfg e (presented_token c)")
  case (Inl err)
  then show ?thesis by (simp add: first_failure_def extraction_order_def)
next
  case (Inr claims)
  note pc = ValidateToken_presented [OF Inr]
  show ?thesis using Inr pc
    by (cases "GetUserFromToken e w claims")
      (auto simp add: first_failure_def extraction_order_def presented_user_def)
qed


section \<open>The scenario of the specification, evaluated\<close>

lemma Register_eval:
  "Register cfg0 (env_at 1000200000000) world0 reg0 =
     (Inr (alice, pair_at 87400200000000), w_registered)"
  by (simp add: Register_def data_defs repo_defs jwt_defs Let_def)

lemma RefreshTokens_same_second:
  "RefreshTokens cfg0 (env_at 1000500000000) w_registered refresh1 =
     (Inr (pair_at 87400500000000), w_registered)"
  by (simp add: RefreshTokens_def data_defs repo_defs jwt_defs Let_def)

lemma RefreshTokens_same_second_again:
  "RefreshTokens cfg0 (env_at 1000900000000) w_registered refresh1 =
     (Inr (pair_at 87400900000000), w_registered)"
  by (simp add: RefreshTokens_def data_defs repo_defs jwt_defs Let_def)

lemma RefreshTokens_later_second:
  "RefreshTokens cfg0 (env_at 2000500000000) w_registered refresh1 = (Inr pair2, w_refreshed)"
  by (simp add: RefreshTokens_def data_defs repo_defs jwt_defs Let_def)

lemma pair_at_refresh: "Pair_RefreshToken (pair_at x) = refresh1"
  by (simp add: pair_at_def)

lemma UpdateStatus_banned:
  "UserService_UpdateStatus (env_at 2500000000000) w_registered 7 StatusBanned =
     (None, w_banned)"
  by (simp add: UserService_UpdateStatus_def data_defs repo_defs)

lemma ValidateToken_access1:
  "ValidateToken cfg0 (env_at 3000000000000) access1 =
     Inr (claims0 ''access'' 1000000000000 87400000000000)"
  by (simp add: data_defs jwt_defs)

lemma presented_bearer: "presented_token (ctx_bearer access1) = access1"
  by (simp add: presented_token_def ctx_bearer_def TrimPrefix_def HasPrefix_def BearerPrefix_def
      str_def)

lemma AuthMiddleware_banned:
  "AuthMiddleware cfg0 (env_at 3000000000000) w_banned (ctx_bearer access1) =
     ((ctx_bearer access1)\<lparr>Written := Some \<lparr>HTTPStatus = 403, Success = False,
         Error_Code = 2004, Error_Message = ''Account is not active'', Error_Details = []\<rparr>,
         Aborted := True\<rparr>, w_banned)"
  by (simp add: guard_defs data_defs repo_defs jwt_defs Let_def)

lemma AuthMiddleware_no_header:
  "AuthMiddleware cfg0 (env_at 3000000000000) w_banned ctx0 =
     (ctx0\<lparr>Written := Some \<lparr>HTTPStatus = 401, Success = False,
         Error_Code = 2000, Error_Message = ''Authorization header is required'',
         Error_Details = []\<rparr>, Aborted := True\<rparr>, w_banned)"
  by (simp add: guard_defs data_defs Let_def)

lemma first_failure_banned:
  "first_failure cfg0 (env_at 3000000000000) w_banned (ctx_bearer access1) = Some StatusIsActive"
  by (simp add: first_failure_def extraction_order_def presented_bearer ValidateToken_access1
      presented_claims_def presented_user_def)
    (simp add: guard_defs data_defs repo_defs)

section \<open>The outcomes of \<^verbatim>\<open>RefreshTokens\<close>, case by case\<close>

lemma RefreshTokens_success_iff:
  "(\<exists>tokens. fst (RefreshTokens cfg e w t) = Inr tokens) \<longleftrightarrow>
     (\<exists>claims user.
        ValidateToken cfg e t = Inr claims \<and> TokenType claims = ''refresh'' \<and>
        FindByID e (users w) (UserID claims) = Inr user \<and> RefreshToken user = t \<and>
        IsActive user \<and> \<not> fails e CallUpdateRefreshToken)"
  by (auto simp: RefreshTokens_def WithDetails_def UpdateRefreshToken_def
      generateTokenPair_never_fails
      split: sum.splits prod.splits option.splits if_splits)

lemma RefreshTokens_success_effect:
  assumes "RefreshTokens cfg e w t = (Inr tokens, w')"
  shows "\<exists>claims user.
           ValidateToken cfg e t = Inr claims \<and>
           FindByID e (users w) (UserID claims) = Inr user \<and>
           generateTokenPair cfg e user = Inr tokens \<and>
           w' = w\<lparr>users := update_where (ID user)
                   (\<lambda>u. u\<lparr>RefreshToken := Pair_RefreshToken tokens\<rparr>) (users w)\<rparr>"
  using assms
  by (auto simp: RefreshTokens_def WithDetails_def UpdateRefreshToken_def
      split: sum.splits prod.splits option.splits if_splits)

lemma RefreshTokens_invalid:
  assumes "\<And>claims. ValidateToken cfg e t = Inr claims \<Longrightarrow> TokenType claims \<noteq> ''refresh''"
  shows "RefreshTokens cfg e w t = (Inl (App ErrInvalidToken), w)"
  using assms by (auto simp: RefreshTokens_def split: sum.splits)

lemma RefreshTokens_lookup_fails:
  assumes "ValidateToken cfg e t = Inr claims" "TokenType claims = ''refresh''"
    "FindByID e (users w) (UserID claims) = Inl err"
  shows "RefreshTokens cfg e w t = (Inl (App ErrUserNotFound), w)"
  using assms by (simp add: RefreshTokens_def)

lemma RefreshTokens_mismatch:
  assumes "ValidateToken cfg e t = Inr claims" "TokenType claims = ''refresh''"
    "FindByID e (users w) (UserID claims) = Inr user" "RefreshToken user \<noteq> t"
  shows "RefreshTokens cfg e w t = (Inl (App ErrInvalidToken), w)"
  using assms by (simp add: RefreshTokens_def)

lemma RefreshTokens_inactive:
  assumes "ValidateToken cfg e t = Inr claims" "TokenType claims = ''refresh''"
    "FindByID e (users w) (UserID claims) = Inr user" "RefreshToken user = t"
    "\<not> IsActive user"
  shows "fst (RefreshTokens cfg e w t) = Inl (App ErrForbidden) \<and>
         users (snd (RefreshTokens cfg e w t)) = users w"
  using assms by (simp add: RefreshTokens_def WithDetails_def)

lemma RefreshTokens_write_fails:
  assumes "ValidateToken cfg e t = Inr claims" "TokenType claims = ''refresh''"
    "FindByID e (users w) (UserID claims) = Inr user" "RefreshToken user = t"
    "IsActive user" "fails e CallUpdateRefreshToken"
  shows "RefreshTokens cfg e w t = (Inl (App ErrInternal), w)"
  using assms generateTokenPair_never_fails [of cfg e user]
  by (auto simp: RefreshTokens_def UpdateRefreshToken_def split: sum.splits)

section \<open>Storage failures, call by call\<close>

lemma Register_exists_fails:
  "fails e CallExistsByEmail \<Longrightarrow> Register cfg e w req = (Inl (App ErrInternal), w)"
  by (simp add: Register_def ExistsByEmail_def)

lemma Register_create_fails:
  "ExistsByEmail e (users w) (reg_Email req) = (False, None) \<Longrightarrow> fails e CallCreate \<Longrightarrow>
     Register cfg e w req = (Inl (App ErrInternal), w)"
  by (simp add: Register_def Create_def Let_def)

lemma Register_save_fails:
  "ExistsByEmail e (users w) (reg_Email req) = (False, None) \<Longrightarrow>
     fails e CallUpdateRefreshToken \<Longrightarrow>
     fst (Register cfg e w req) = Inl (App ErrInternal)"
  by (auto simp: Register_def Let_def UpdateRefreshToken_def
      split: prod.splits sum.splits option.splits)

lemma Logout_fails:
  "fails e CallUpdateRefreshToken \<Longrightarrow> Logout e w uid = (Some (App ErrInternal), w)"
  by (simp add: Logout_def UpdateRefreshToken_def)

lemma ChangePassword_write_fails:
  "FindByID e (users w) uid = Inr user \<Longrightarrow> CheckPassword e user old \<Longrightarrow>
     fails e CallUpdatePassword \<Longrightarrow>
     ChangePassword e w uid old new = (Some (App ErrInternal), w)"
  by (auto simp: ChangePassword_def UpdatePassword_def split: option.splits)

lemma Login_lookup_fails:
  "fails e CallFindByEmail \<Longrightarrow> Login cfg e w req = (Inl (App ErrInvalidCredentials), w)"
  by (simp add: Login_def FindByEmail_def)

lemma RefreshTokens_lookup_driver_fails:
  "ValidateToken cfg e t = Inr claims \<Longrightarrow> TokenType claims = ''refresh'' \<Longrightarrow>
     fails e CallFindByID \<Longrightarrow> RefreshTokens cfg e w t = (Inl (App ErrUserNotFound), w)"
  by (simp add: RefreshTokens_def FindByID_def)

lemma ChangePassword_lookup_fails:
  "fails e CallFindByID \<Longrightarrow> ChangePassword e w uid old new = (Some GormErr, w)"
  by (simp add: ChangePassword_def FindByID_def)

lemma reject_response:
  "\<exists>r. Written (fst (reject k c w)) = Some r \<and> \<not> Success r \<and>
       HTTPStatus r = rejection_status k \<and> Error_Code r = rejection_code k \<and>
       Error_Message r = rejection_message k"
  by (cases k) (simp_all add: Abort_def response_Unauthorized_def response_Error_def
      response_Forbidden_def WithDetails_def GetAppError_def CodeUnauthorized_def
      CodeForbidden_def)

section \<open>The claims\<close>

subsection \<open>Refresh-token rotation\<close>

text \<open>
  C1 at the registration of the specification's scenario. The identity registers at
  1000.2 s and receives a pair. \<^verbatim>\<open>RefreshTokens\<close> with the refresh token of that pair at
  1000.5 s succeeds, and the refresh token it issues and stores is the same string as the
  one presented: the claims of a token are the identity's id, email and role, the kind,
  the issuer, the subject and three dates in whole seconds, and the signature is a
  function of them. \<^verbatim>\<open>RefreshTokens\<close> with the refresh token of the registration once
  more, at 1000.9 s, succeeds again, where rotation asks for a refusal.
\<close>

theorem refresh_rotation_replay:
  "fst (Register cfg0 (env_at 1000200000000) world0 reg0) =
     Inr (alice, pair_at 87400200000000) \<and>
   fst (RefreshTokens cfg0 (env_at 1000500000000)
          (snd (Register cfg0 (env_at 1000200000000) world0 reg0))
          (Pair_RefreshToken (pair_at 87400200000000))) = Inr (pair_at 87400500000000) \<and>
   Pair_RefreshToken (pair_at 87400500000000) = Pair_RefreshToken (pair_at 87400200000000) \<and>
   fst (RefreshTokens cfg0 (env_at 1000900000000)
          (snd (RefreshTokens cfg0 (env_at 1000500000000)
                 (snd (Register cfg0 (env_at 1000200000000) world0 reg0))
                 (Pair_RefreshToken (pair_at 87400200000000))))
          (Pair_RefreshToken (pair_at 87400200000000))) = Inr (pair_at 87400900000000)"
  by (simp add: Register_eval RefreshTokens_same_second RefreshTokens_same_second_again
      pair_at_refresh)

subsection \<open>The conditions of a refresh\<close>

text \<open>
  C2, as the code has it. \<^verbatim>\<open>RefreshTokens\<close> returns a pair if and only if the token
  validates, is of kind refresh, the identity is found, the token equals the stored one,
  the identity is active and the store takes the write of the new refresh token. On
  success the pair is a newly generated one and its refresh token replaces the stored one
  of the identity; nothing else changes. Otherwise the first check that fails decides:
  \<^verbatim>\<open>ErrInvalidToken\<close> for a token that does not validate or is not of kind refresh,
  \<^verbatim>\<open>ErrUserNotFound\<close> for a failed lookup, \<^verbatim>\<open>ErrInvalidToken\<close> for a token that differs from
  the stored one, \<^verbatim>\<open>ErrForbidden\<close> for an identity that is not active, \<^verbatim>\<open>ErrInternal\<close> for
  a failed write; the rows of the table are as before in each of these cases.
\<close>

theorem RefreshTokens_outcomes:
  "((\<exists>tokens. fst (RefreshTokens cfg e w t) = Inr tokens) \<longleftrightarrow>
      (\<exists>claims user.
         ValidateToken cfg e t = Inr claims \<and> TokenType claims = ''refresh'' \<and>
         FindByID e (users w) (UserID claims) = Inr user \<and> RefreshToken user = t \<and>
         IsActive user \<and> \<not> fails e CallUpdateRefreshToken)) \<and>
   (\<forall>tokens w'. RefreshTokens cfg e w t = (Inr tokens, w') \<longrightarrow>
      (\<exists>claims user.
         ValidateToken cfg e t = Inr claims \<and>
         FindByID e (users w) (UserID claims) = Inr user \<and>
         generateTokenPair cfg e user = Inr tokens \<and>
         w' = w\<lparr>users := update_where (ID user)
                 (\<lambda>u. u\<lparr>RefreshToken := Pair_RefreshToken tokens\<rparr>) (users w)\<rparr>)) \<and>
   ((\<forall>claims. ValidateToken cfg e t = Inr claims \<longrightarrow> TokenType claims \<noteq> ''refresh'') \<longrightarrow>
      RefreshTokens cfg e w t = (Inl (App ErrInvalidToken), w)) \<and>
   (\<forall>claims. ValidateToken cfg e t = Inr claims \<and> TokenType claims = ''refresh'' \<longrightarrow>
      (\<forall>err. FindByID e (users w) (UserID claims) = Inl err \<longrightarrow>
         RefreshTokens cfg e w t = (Inl (App ErrUserNotFound), w)) \<and>
      (\<forall>user. FindByID e (users w) (UserID claims) = Inr user \<longrightarrow>
         (RefreshToken user \<noteq> t \<longrightarrow>
            RefreshTokens cfg e w t = (Inl (App ErrInvalidToken), w)) \<and>
         (RefreshToken user = t \<and> \<not> IsActive user \<longrightarrow>
            fst (RefreshTokens cfg e w t) = Inl (App ErrForbidden) \<and>
            users (snd (RefreshTokens cfg e w t)) = users w) \<and>
         (RefreshToken user = t \<and> IsActive user \<and> fails e CallUpdateRefreshToken \<longrightarrow>
            RefreshTokens cfg e w t = (Inl (App ErrInternal), w))))"
  using RefreshTokens_success_iff [of cfg e w t] RefreshTokens_success_effect [of cfg e w t]
    RefreshTokens_invalid [of cfg e t w] RefreshTokens_lookup_fails [of cfg e t _ w]
    RefreshTokens_mismatch [of cfg e t _ w] RefreshTokens_inactive [of cfg e t _ w]
    RefreshTokens_write_fails [of cfg e t _ w]
  by blast

theorem RefreshTokens_outcomes_witness:
  "(\<exists>claims user.
      ValidateToken cfg0 (env_at 2000500000000) refresh1 = Inr claims \<and>
      TokenType claims = ''refresh'' \<and>
      FindByID (env_at 2000500000000) (users w_registered) (UserID claims) = Inr user \<and>
      RefreshToken user = refresh1 \<and> IsActive user \<and>
      \<not> fails (env_at 2000500000000) CallUpdateRefreshToken) \<and>
   RefreshTokens cfg0 (env_at 2000500000000) w_registered refresh1 = (Inr pair2, w_refreshed) \<and>
   (\<exists>claims user.
      ValidateToken cfg0 (env_at 2000500000000) refresh1 = Inr claims \<and>
      FindByID (env_at 2000500000000) (users w_registered) (UserID claims) = Inr user \<and>
      generateTokenPair cfg0 (env_at 2000500000000) user = Inr pair2 \<and>
      w_refreshed = w_registered\<lparr>users := update_where (ID user)
              (\<lambda>u. u\<lparr>RefreshToken := Pair_RefreshToken pair2\<rparr>) (users w_registered)\<rparr>)"
proof -
  have ok: "fst (RefreshTokens cfg0 (env_at 2000500000000) w_registered refresh1) = Inr pair2"
    by (simp add: RefreshTokens_later_second)
  from RefreshTokens_outcomes [of cfg0 "env_at 2000500000000" w_registered refresh1] ok
    RefreshTokens_later_second
  show ?thesis by blast
qed

text \<open>
  Without the condition on the write the equivalence fails: every condition the
  specification lists holds, the driver refuses the update, and the call ends in
  \<^verbatim>\<open>ErrInternal\<close> with the old token still stored.
\<close>

theorem RefreshTokens_iff_counterexample:
  "ValidateToken cfg0 (env_failing 2000500000000 CallUpdateRefreshToken) refresh1 =
     Inr (claims0 ''refresh'' 1000000000000 605800000000000) \<and>
   TokenType (claims0 ''refresh'' 1000000000000 605800000000000) = ''refresh'' \<and>
   FindByID (env_failing 2000500000000 CallUpdateRefreshToken) (users w_registered)
     (UserID (claims0 ''refresh'' 1000000000000 605800000000000)) =
     Inr (alice\<lparr>RefreshToken := refresh1\<rparr>) \<and>
   RefreshToken (alice\<lparr>RefreshToken := refresh1\<rparr>) = refresh1 \<and>
   IsActive (alice\<lparr>RefreshToken := refresh1\<rparr>) \<and>
   RefreshTokens cfg0 (env_failing 2000500000000 CallUpdateRefreshToken) w_registered refresh1 =
     (Inl (App ErrInternal), w_registered)"
  by (simp add: RefreshTokens_def data_defs repo_defs jwt_defs Let_def)

subsection \<open>Issue and validate\<close>

text \<open>
  C3. For every identity and every configuration whose access lifetime is positive and
  does not overflow a \<^verbatim>\<open>time.Duration\<close>, \<^verbatim>\<open>generateTokenPair\<close> returns a pair, and
  validating its access token at any instant from the issue until one second before the
  lifetime is over succeeds with claims of kind access that carry the identity's id,
  email and role.
\<close>

theorem issue_validate_roundtrip:
  assumes ttl: "0 < JWT_ExpiryHours cfg" "JWT_ExpiryHours cfg \<le> 2562047"
    and fresh: "Now e \<le> Now e'" "Now e' - Now e \<le> JWT_ExpiryHours cfg * Hour - Second"
  shows "\<exists>tokens claims.
           generateTokenPair cfg e user = Inr tokens \<and>
           ValidateToken cfg e' (AccessToken tokens) = Inr claims \<and>
           TokenType claims = ''access'' \<and> UserID claims = ID user \<and>
           Claims_Email claims = Email user \<and> Claims_Role claims = Role user"
proof -
  have h: "hours (JWT_ExpiryHours cfg) = JWT_ExpiryHours cfg * Hour"
    using ttl by (rule hours_no_wrap)
  let ?x = "Now e + JWT_ExpiryHours cfg * Hour"
  have nbf: "\<not> Now e' < Now e - Now e mod Second"
    using trunc_le [of "Now e"] fresh(1) by linarith
  have exp: "Now e' < ?x - ?x mod Second"
    using trunc_gt [of ?x] fresh(2) by linarith
  show ?thesis
    using nbf exp
    by (simp add: generateTokenPair_def SignedString_def Let_def h ValidateToken_def
        ParseWithClaims_def keyFunc_def Verify_def Validate_def NewNumericDate_def)
qed

text \<open>The pair issued to the registered identity at 1000.2 s, validated at 1000.7 s.\<close>

theorem issue_validate_roundtrip_witness:
  "0 < JWT_ExpiryHours cfg0 \<and> JWT_ExpiryHours cfg0 \<le> 2562047 \<and>
   Now (env_at 1000200000000) \<le> Now (env_at 1000700000000) \<and>
   Now (env_at 1000700000000) - Now (env_at 1000200000000) \<le>
     JWT_ExpiryHours cfg0 * Hour - Second \<and>
   (\<exists>tokens claims.
      generateTokenPair cfg0 (env_at 1000200000000) alice = Inr tokens \<and>
      ValidateToken cfg0 (env_at 1000700000000) (AccessToken tokens) = Inr claims \<and>
      TokenType claims = ''access'' \<and> UserID claims = ID alice \<and>
      Claims_Email claims = Email alice \<and> Claims_Role claims = Role alice)"
proof -
  have h: "0 < JWT_ExpiryHours cfg0" "JWT_ExpiryHours cfg0 \<le> 2562047"
    "Now (env_at 1000200000000) \<le> Now (env_at 1000700000000)"
    "Now (env_at 1000700000000) - Now (env_at 1000200000000) \<le>
       JWT_ExpiryHours cfg0 * Hour - Second"
    by (simp_all add: cfg0_def env_at_def Hour_def Second_def)
  from issue_validate_roundtrip [OF h, of alice] h show ?thesis by blast
qed

subsection \<open>The guard in required mode\<close>

text \<open>
  C4, as the code has it. In required mode a request that fails a check is aborted: the
  handler is not called, nothing is attached, and the response is an error whose status,
  code and message are those of the first failed check: 401 with code 2000 and a message
  that names the defect for a missing header, a header without the bearer prefix or an
  empty token; 401 with code 2001 and "Invalid token" for a token that does not validate
  or is not an access token; 404 with code 3000 and "User not found" for a failed lookup;
  403 with code 2004 and "Account is not active" for an identity that is not active. A
  banned identity with a valid access token gets the last one.
\<close>

theorem AuthMiddleware_rejections:
  assumes "first_failure cfg e w c = Some k"
  shows "Aborted (fst (AuthMiddleware cfg e w c)) \<and>
         NextCalled (fst (AuthMiddleware cfg e w c)) = NextCalled c \<and>
         UserKey (fst (AuthMiddleware cfg e w c)) = UserKey c \<and>
         ClaimsKey (fst (AuthMiddleware cfg e w c)) = ClaimsKey c \<and>
         (\<exists>r. Written (fst (AuthMiddleware cfg e w c)) = Some r \<and> \<not> Success r \<and>
              HTTPStatus r = rejection_status k \<and> Error_Code r = rejection_code k \<and>
              Error_Message r = rejection_message k)"
proof -
  have eq: "AuthMiddleware cfg e w c = reject k c w"
    using assms by (simp add: AuthMiddleware_first_failure)
  have "reject k c w = (fst (reject k c w), snd (reject k c w))" by simp
  from reject_effect [OF this] reject_response [of k c w] show ?thesis
    by (simp add: eq)
qed

theorem AuthMiddleware_rejections_witness:
  "first_failure cfg0 (env_at 3000000000000) w_banned (ctx_bearer access1) = Some StatusIsActive \<and>
   Aborted (fst (AuthMiddleware cfg0 (env_at 3000000000000) w_banned (ctx_bearer access1))) \<and>
   \<not> NextCalled (fst (AuthMiddleware cfg0 (env_at 3000000000000) w_banned (ctx_bearer access1))) \<and>
   UserKey (fst (AuthMiddleware cfg0 (env_at 3000000000000) w_banned (ctx_bearer access1))) = None \<and>
   (\<exists>r. Written (fst (AuthMiddleware cfg0 (env_at 3000000000000) w_banned (ctx_bearer access1)))
          = Some r \<and>
        HTTPStatus r = 403 \<and> Error_Code r = 2004 \<and> Error_Message r = ''Account is not active'')"
  using AuthMiddleware_rejections [OF first_failure_banned] first_failure_banned
  by (auto simp: ctx_bearer_def)

text \<open>
  The responses are not uniform: the banned identity with its valid access token is
  answered 403 "Account is not active", the request without a header 401 "Authorization
  header is required".
\<close>

theorem AuthMiddleware_uniform_counterexample:
  "Written (fst (AuthMiddleware cfg0 (env_at 3000000000000) w_banned (ctx_bearer access1))) =
     Some \<lparr>HTTPStatus = 403, Success = False, Error_Code = 2004,
           Error_Message = ''Account is not active'', Error_Details = []\<rparr> \<and>
   Written (fst (AuthMiddleware cfg0 (env_at 3000000000000) w_banned ctx0)) =
     Some \<lparr>HTTPStatus = 401, Success = False, Error_Code = 2000,
           Error_Message = ''Authorization header is required'', Error_Details = []\<rparr>"
  by (simp add: AuthMiddleware_banned AuthMiddleware_no_header)

subsection \<open>The guard in optional mode\<close>

text \<open>
  C5 at the banned identity. The request of the banned identity with its valid access
  token fails the last check of the extraction algorithm, and the guard in optional mode
  attaches the identity and the claims all the same and calls the handler.
\<close>

theorem OptionalAuthMiddleware_banned_attached:
  "first_failure cfg0 (env_at 3000000000000) w_banned (ctx_bearer access1) = Some StatusIsActive \<and>
   OptionalAuthMiddleware cfg0 (env_at 3000000000000) w_banned (ctx_bearer access1) =
     ((ctx_bearer access1)\<lparr>
        UserKey := Some (alice\<lparr>Status := ''banned'', RefreshToken := refresh1\<rparr>),
        ClaimsKey := Some (claims0 ''access'' 1000000000000 87400000000000),
        NextCalled := True\<rparr>, w_banned)"
proof
  show "first_failure cfg0 (env_at 3000000000000) w_banned (ctx_bearer access1) =
          Some StatusIsActive"
    by (rule first_failure_banned)
  show "OptionalAuthMiddleware cfg0 (env_at 3000000000000) w_banned (ctx_bearer access1) =
     ((ctx_bearer access1)\<lparr>
        UserKey := Some (alice\<lparr>Status := ''banned'', RefreshToken := refresh1\<rparr>),
        ClaimsKey := Some (claims0 ''access'' 1000000000000 87400000000000),
        NextCalled := True\<rparr>, w_banned)"
    by (simp add: guard_defs data_defs repo_defs jwt_defs Let_def)
qed

subsection \<open>Login failures\<close>

text \<open>
  C6. A login whose email is found but whose password does not match, and a login whose
  lookup fails, return the same error: the pointer \<^verbatim>\<open>ErrInvalidCredentials\<close>, hence the
  same code, message and status; neither changes the state.
\<close>

theorem Login_indistinguishable:
  assumes "FindByEmail ea (users wa) (login_Email reqa) = Inr user"
    and "\<not> CheckPassword ea user (login_Password reqa)"
    and "FindByEmail eb (users wb) (login_Email reqb) = Inl err"
  shows "\<exists>v1 v2.
           Login cfg ea wa reqa = (Inl (App v1), wa) \<and>
           Login cfg eb wb reqb = (Inl (App v2), wb) \<and>
           v1 = ErrInvalidCredentials \<and> v2 = ErrInvalidCredentials \<and>
           Code v1 = Code v2 \<and> Message v1 = Message v2 \<and> StatusCode v1 = StatusCode v2"
  using assms by (simp add: Login_def)

theorem Login_indistinguishable_witness:
  "FindByEmail (env_at 3000000000000) (users w_registered) (login_Email login_wrong) =
     Inr (alice\<lparr>RefreshToken := refresh1\<rparr>) \<and>
   \<not> CheckPassword (env_at 3000000000000) (alice\<lparr>RefreshToken := refresh1\<rparr>)
       (login_Password login_wrong) \<and>
   FindByEmail (env_at 3000000000000) (users w_registered) (login_Email login_nobody) =
     Inl (App ErrUserNotFound) \<and>
   Login cfg0 (env_at 3000000000000) w_registered login_wrong =
     (Inl (App ErrInvalidCredentials), w_registered) \<and>
   Login cfg0 (env_at 3000000000000) w_registered login_nobody =
     (Inl (App ErrInvalidCredentials), w_registered)"
proof -
  have h1: "FindByEmail (env_at 3000000000000) (users w_registered) (login_Email login_wrong) =
     Inr (alice\<lparr>RefreshToken := refresh1\<rparr>)"
    by (simp add: FindByEmail_def data_defs)
  have h2: "\<not> CheckPassword (env_at 3000000000000) (alice\<lparr>RefreshToken := refresh1\<rparr>)
       (login_Password login_wrong)"
    by (simp add: CheckPassword_def data_defs)
  have h3: "FindByEmail (env_at 3000000000000) (users w_registered) (login_Email login_nobody) =
     Inl (App ErrUserNotFound)"
    by (simp add: FindByEmail_def data_defs)
  from Login_indistinguishable [OF h1 h2 h3, of cfg0] h1 h2 h3 show ?thesis by auto
qed

subsection \<open>Password change with a wrong old password\<close>

text \<open>
  C7. When the identity is found and the old password does not match its stored hash,
  \<^verbatim>\<open>ChangePassword\<close> returns \<^verbatim>\<open>ErrInvalidPassword\<close> and the state is the one before the
  call: no row changes, so neither the stored refresh token nor the stored hash does.
\<close>

theorem ChangePassword_wrong_old_password:
  assumes "FindByID e (users w) userID = Inr user"
    and "\<not> CheckPassword e user oldPassword"
  shows "ChangePassword e w userID oldPassword newPassword =
           (Some (App ErrInvalidPassword), w)"
  using assms by (simp add: ChangePassword_def)

theorem ChangePassword_wrong_old_password_witness:
  "FindByID (env_at 3000000000000) (users w_registered) 7 =
     Inr (alice\<lparr>RefreshToken := refresh1\<rparr>) \<and>
   \<not> CheckPassword (env_at 3000000000000) (alice\<lparr>RefreshToken := refresh1\<rparr>)
       ''letmein'' \<and>
   ChangePassword (env_at 3000000000000) w_registered 7 ''letmein'' ''N3wPassw0rd!'' =
     (Some (App ErrInvalidPassword), w_registered)"
proof -
  have h1: "FindByID (env_at 3000000000000) (users w_registered) 7 =
      Inr (alice\<lparr>RefreshToken := refresh1\<rparr>)"
    by (simp add: FindByID_def data_defs)
  have h2: "\<not> CheckPassword (env_at 3000000000000) (alice\<lparr>RefreshToken := refresh1\<rparr>)
      ''letmein''"
    by (simp add: CheckPassword_def data_defs)
  from ChangePassword_wrong_old_password [OF h1 h2, of "''N3wPassw0rd!''"] h1 h2
  show ?thesis by simp
qed

subsection \<open>Storage failures\<close>

text \<open>
  C8, as the code has it. A storage failure is answered with \<^verbatim>\<open>ErrInternal\<close> when it
  happens in one of the three calls of \<^verbatim>\<open>Register\<close>, in \<^verbatim>\<open>Logout\<close>, in the write of the new
  refresh token in \<^verbatim>\<open>RefreshTokens\<close> or in the write of the new hash in \<^verbatim>\<open>ChangePassword\<close>.
  A failed lookup is answered with \<^verbatim>\<open>ErrInvalidCredentials\<close> by \<^verbatim>\<open>Login\<close> and with
  \<^verbatim>\<open>ErrUserNotFound\<close> by \<^verbatim>\<open>RefreshTokens\<close>, whatever made it fail; \<^verbatim>\<open>ChangePassword\<close> returns
  the driver's error as it is, which is not an \<^verbatim>\<open>AppError\<close> and is rendered as
  \<^verbatim>\<open>ErrInternal\<close>.
\<close>

theorem storage_failures_surfaced:
  "(fails e CallExistsByEmail \<longrightarrow> Register cfg e w req = (Inl (App ErrInternal), w)) \<and>
   (ExistsByEmail e (users w) (reg_Email req) = (False, None) \<and> fails e CallCreate \<longrightarrow>
      Register cfg e w req = (Inl (App ErrInternal), w)) \<and>
   (ExistsByEmail e (users w) (reg_Email req) = (False, None) \<and>
    fails e CallUpdateRefreshToken \<longrightarrow>
      fst (Register cfg e w req) = Inl (App ErrInternal)) \<and>
   (fails e CallUpdateRefreshToken \<longrightarrow> Logout e w uid = (Some (App ErrInternal), w)) \<and>
   (\<forall>claims user.
      ValidateToken cfg e t = Inr claims \<and> TokenType claims = ''refresh'' \<and>
      FindByID e (users w) (UserID claims) = Inr user \<and> RefreshToken user = t \<and>
      IsActive user \<and> fails e CallUpdateRefreshToken \<longrightarrow>
      RefreshTokens cfg e w t = (Inl (App ErrInternal), w)) \<and>
   (\<forall>user. FindByID e (users w) uid = Inr user \<and> CheckPassword e user old \<and>
      fails e CallUpdatePassword \<longrightarrow>
      ChangePassword e w uid old new = (Some (App ErrInternal), w)) \<and>
   (fails e CallFindByEmail \<longrightarrow>
      Login cfg e w lreq = (Inl (App ErrInvalidCredentials), w)) \<and>
   (\<forall>claims. ValidateToken cfg e t = Inr claims \<and> TokenType claims = ''refresh'' \<and>
      fails e CallFindByID \<longrightarrow>
      RefreshTokens cfg e w t = (Inl (App ErrUserNotFound), w)) \<and>
   (fails e CallFindByID \<longrightarrow>
      ChangePassword e w uid old new = (Some GormErr, w) \<and> \<not> IsAppError GormErr \<and>
      GetAppError GormErr = ErrInternal)"
  using Register_exists_fails [of e cfg w req] Register_create_fails [of e w req cfg]
    Register_save_fails [of e w req cfg] Logout_fails [of e w uid]
    RefreshTokens_write_fails [of cfg e t _ w] ChangePassword_write_fails [of e w uid _ old new]
    Login_lookup_fails [of e cfg w lreq] RefreshTokens_lookup_driver_fails [of cfg e t _ w]
    ChangePassword_lookup_fails [of e w uid old new]
  by (simp add: IsAppError_def GetAppError_def)

theorem storage_failures_surfaced_witness:
  "fails (env_failing 3000000000000 CallUpdateRefreshToken) CallUpdateRefreshToken \<and>
   Logout (env_failing 3000000000000 CallUpdateRefreshToken) w_registered 7 =
     (Some (App ErrInternal), w_registered) \<and>
   ExistsByEmail (env_failing 3000000000000 CallUpdateRefreshToken) (users world0)
     (reg_Email reg0) = (False, None) \<and>
   fst (Register cfg0 (env_failing 3000000000000 CallUpdateRefreshToken) world0 reg0) =
     Inl (App ErrInternal)"
proof -
  have f: "fails (env_failing 3000000000000 CallUpdateRefreshToken) CallUpdateRefreshToken"
    by (simp add: env_failing_def)
  have x: "ExistsByEmail (env_failing 3000000000000 CallUpdateRefreshToken) (users world0)
     (reg_Email reg0) = (False, None)"
    by (simp add: ExistsByEmail_def env_failing_def world0_def)
  from storage_failures_surfaced [of "env_failing 3000000000000 CallUpdateRefreshToken"
      cfg0 world0 reg0 7 refresh1 "[]" "[]" login0]
    storage_failures_surfaced [of "env_failing 3000000000000 CallUpdateRefreshToken"
      cfg0 w_registered reg0 7 refresh1 "[]" "[]" login0] f x
  show ?thesis by blast
qed

text \<open>
  Not every storage failure ends in \<^verbatim>\<open>ErrInternal\<close>: when the lookup by email fails in
  the driver, \<^verbatim>\<open>Login\<close> answers \<^verbatim>\<open>ErrInvalidCredentials\<close>.
\<close>

theorem storage_failure_counterexample:
  "fails (env_failing 3000000000000 CallFindByEmail) CallFindByEmail \<and>
   FindByEmail (env_failing 3000000000000 CallFindByEmail) (users w_registered)
     (login_Email login0) = Inl GormErr \<and>
   Login cfg0 (env_failing 3000000000000 CallFindByEmail) w_registered login0 =
     (Inl (App ErrInvalidCredentials), w_registered)"
  by (simp add: Login_def data_defs repo_defs)

subsection \<open>The order of the checks\<close>

text \<open>
  C9. The required-mode guard does what the extraction algorithm says: it looks for the
  first check, in the order of the specification, that the request fails, and rejects
  the request for that check, whatever the later checks would say; a rejected request is
  aborted with nothing attached and the handler not called; when no check fails, and
  only then, it attaches the identity found and the validated claims and calls the
  handler.
\<close>

theorem AuthMiddleware_check_order:
  "AuthMiddleware cfg e w c =
     (case first_failure cfg e w c of Some k \<Rightarrow> reject k c w | None \<Rightarrow> (attach e w c, w)) \<and>
   (\<forall>k. first_failure cfg e w c = Some k \<longrightarrow>
      Aborted (fst (AuthMiddleware cfg e w c)) \<and>
      NextCalled (fst (AuthMiddleware cfg e w c)) = NextCalled c \<and>
      UserKey (fst (AuthMiddleware cfg e w c)) = UserKey c \<and>
      ClaimsKey (fst (AuthMiddleware cfg e w c)) = ClaimsKey c) \<and>
   (first_failure cfg e w c = None \<longrightarrow>
      (\<exists>claims user.
         ValidateToken cfg e (presented_token c) = Inr claims \<and>
         GetUserFromToken e w claims = Inr user \<and>
         fst (AuthMiddleware cfg e w c) =
           c\<lparr>UserKey := Some user, ClaimsKey := Some claims, NextCalled := True\<rparr>))"
proof (intro conjI allI impI)
  show "AuthMiddleware cfg e w c =
     (case first_failure cfg e w c of Some k \<Rightarrow> reject k c w | None \<Rightarrow> (attach e w c, w))"
    by (rule AuthMiddleware_first_failure)
next
  fix k assume k: "first_failure cfg e w c = Some k"
  then have "reject k c w = (fst (AuthMiddleware cfg e w c), snd (AuthMiddleware cfg e w c))"
    by (simp add: AuthMiddleware_first_failure)
  from reject_effect [OF this]
  show "Aborted (fst (AuthMiddleware cfg e w c))"
    "NextCalled (fst (AuthMiddleware cfg e w c)) = NextCalled c"
    "UserKey (fst (AuthMiddleware cfg e w c)) = UserKey c"
    "ClaimsKey (fst (AuthMiddleware cfg e w c)) = ClaimsKey c" by simp_all
next
  assume n: "first_failure cfg e w c = None"
  then obtain claims user where
    v: "ValidateToken cfg e (presented_token c) = Inr claims"
    and g: "GetUserFromToken e w claims = Inr user"
    by (auto simp: first_failure_None)
  have "attach e w c = c\<lparr>UserKey := Some user, ClaimsKey := Some claims, NextCalled := True\<rparr>"
    using ValidateToken_presented [OF v] g
    by (simp add: attach_def presented_user_def Next_def Set_claims_def Set_user_def)
  with n v g show "\<exists>claims user.
         ValidateToken cfg e (presented_token c) = Inr claims \<and>
         GetUserFromToken e w claims = Inr user \<and>
         fst (AuthMiddleware cfg e w c) =
           c\<lparr>UserKey := Some user, ClaimsKey := Some claims, NextCalled := True\<rparr>"
    by (simp add: AuthMiddleware_first_failure)
qed

text \<open>
  A refresh token presented as a bearer when the table is empty fails the kind check and
  the two checks after it; the guard answers for the kind. The access token of the
  registered identity passes every check.
\<close>

lemma first_failure_refresh_bearer:
  "first_failure cfg0 (env_at 3000000000000) world0 (ctx_bearer refresh1) = Some KindIsAccess"
  by (simp add: first_failure_def extraction_order_def presented_claims_def presented_token_def
      guard_defs data_defs jwt_defs)

lemma first_failure_access_bearer:
  "first_failure cfg0 (env_at 3000000000000) w_registered (ctx_bearer access1) = None"
  by (simp add: first_failure_def extraction_order_def presented_bearer ValidateToken_access1
      presented_claims_def presented_user_def)
    (simp add: guard_defs data_defs repo_defs)

theorem AuthMiddleware_check_order_witness:
  "first_failure cfg0 (env_at 3000000000000) world0 (ctx_bearer refresh1) = Some KindIsAccess \<and>
   \<not> passes cfg0 (env_at 3000000000000) world0 (ctx_bearer refresh1) IdentityLookupSucceeds \<and>
   AuthMiddleware cfg0 (env_at 3000000000000) world0 (ctx_bearer refresh1) =
     reject KindIsAccess (ctx_bearer refresh1) world0 \<and>
   Aborted (fst (AuthMiddleware cfg0 (env_at 3000000000000) world0 (ctx_bearer refresh1))) \<and>
   first_failure cfg0 (env_at 3000000000000) w_registered (ctx_bearer access1) = None \<and>
   NextCalled (fst (AuthMiddleware cfg0 (env_at 3000000000000) w_registered (ctx_bearer access1)))"
proof -
  have p: "\<not> passes cfg0 (env_at 3000000000000) world0 (ctx_bearer refresh1)
             IdentityLookupSucceeds"
    by (simp add: presented_user_def presented_claims_def presented_token_def
        guard_defs data_defs repo_defs)
  from AuthMiddleware_check_order [of cfg0 "env_at 3000000000000" world0 "ctx_bearer refresh1"]
    AuthMiddleware_check_order [of cfg0 "env_at 3000000000000" w_registered "ctx_bearer access1"]
    first_failure_refresh_bearer first_failure_access_bearer p
  show ?thesis by auto
qed

subsection \<open>Registration\<close>

text \<open>
  C10. Whenever \<^verbatim>\<open>Register\<close> succeeds, whatever the request holds, the identity it returns
  has the role user and the status active, not pending, and the row of that identity in
  the resulting table is the returned identity with the refresh token of the returned
  pair stored.
\<close>

theorem Register_creates_active_user:
  assumes "Register cfg e w req = (Inr (user, tokens), w')"
  shows "Role user = RoleUser \<and> Status user = StatusActive \<and>
         Status user \<noteq> StatusPending \<and>
         find (\<lambda>r. ID r = ID user) (users w') =
           Some (user\<lparr>RefreshToken := Pair_RefreshToken tokens\<rparr>)"
proof -
  from assms obtain rows1 where
    c: "Create e (users w) \<lparr>ID = 0, Email = reg_Email req, Password = reg_Password req,
                   FirstName = reg_FirstName req, LastName = reg_LastName req,
                   Role = RoleUser, Status = StatusActive, LastLoginAt = None,
                   RefreshToken = []\<rparr> = (Inr user, rows1)"
    and u: "UpdateRefreshToken e rows1 (ID user) (Pair_RefreshToken tokens) = (None, users w')"
    by (auto simp: Register_def Let_def split: prod.splits option.splits if_splits sum.splits)
  from Create_Inr [OF c] have f: "find (\<lambda>r. ID r = ID user) rows1 = Some user"
    and r: "Role user = RoleUser" "Status user = StatusActive" by simp_all
  from u have "users w' =
      update_where (ID user) (\<lambda>u. u\<lparr>RefreshToken := Pair_RefreshToken tokens\<rparr>) rows1"
    by (auto simp: UpdateRefreshToken_def split: if_splits)
  with f r show ?thesis
    by (simp add: find_update_where StatusActive_def StatusPending_def)
qed

theorem Register_creates_active_user_witness:
  "Register cfg0 (env_at 1000200000000) world0 reg0 =
     (Inr (alice, pair_at 87400200000000), w_registered) \<and>
   Role alice = RoleUser \<and> Status alice = StatusActive \<and> Status alice \<noteq> StatusPending \<and>
   find (\<lambda>r. ID r = ID alice) (users w_registered) =
     Some (alice\<lparr>RefreshToken := Pair_RefreshToken (pair_at 87400200000000)\<rparr>)"
  using Register_creates_active_user [OF Register_eval] Register_eval by blast

end
